theory Spec2Isabelle
  imports Complex_Main "HOL-Library.AList"
begin

section \<open>Python values and errors\<close>

text \<open>
  The repository is a Python program. Its dictionaries hold values of several types
  (\<^verbatim>\<open>Dict[str, Any]\<close>), so the values that occur are collected in one datatype.
  A Python \<^verbatim>\<open>float\<close> is modelled by a real number; infinities and NaN are
  outside the model. Every exception the modelled
  code can raise is a value of \<open>py_error\<close>, and a function that can raise returns
  \<open>py_error + 'a\<close> with \<open>Inl\<close> for the exception.
\<close>

datatype pyval = PyNone | PyInt int | PyFloat real | PyStr string

datatype py_error = TypeError | ValueError | IndexError | OverflowError | DuplicateIDError

type_synonym 'a result = "py_error + 'a"

type_synonym pydict = "(string \<times> pyval) list"

text \<open>Sequencing of two computations that can raise: the first exception wins.\<close>

definition and_then :: "'a result \<Rightarrow> ('a \<Rightarrow> 'b result) \<Rightarrow> 'b result" where
  "and_then r f = (case r of Inl e \<Rightarrow> Inl e | Inr x \<Rightarrow> f x)"

text \<open>
  A dictionary is an association list in insertion order with one pair per key.
  \<^verbatim>\<open>{**a, **b}\<close> and \<^verbatim>\<open>d[k] = v\<close> keep the position of a key that is
  already there and replace its value, which is what \<open>AList.update\<close> does.
\<close>

definition dict_merge :: "pydict \<Rightarrow> pydict \<Rightarrow> pydict" where
  "dict_merge base extra = fold (\<lambda>(k, v). AList.update k v) extra base"

definition dict_get :: "pydict \<Rightarrow> string \<Rightarrow> pyval \<Rightarrow> pyval" where
  "dict_get d k dflt = (case map_of d k of None \<Rightarrow> dflt | Some v \<Rightarrow> v)"

section \<open>Number formatting\<close>

text \<open>
  The f-strings of the extractor use the format specifications \<^verbatim>\<open>.2f\<close> and
  \<^verbatim>\<open>,.2f\<close>: two decimals, ties rounded to even, a minus sign for a negative
  value (also when it rounds to zero), and with the comma option the integer part in
  groups of three digits.
\<close>

definition digit_char :: "int \<Rightarrow> char" where
  "digit_char d = ''0123456789'' ! nat d"

function show_nat :: "int \<Rightarrow> string" where
  "show_nat n = (if n < 10 then [digit_char n] else show_nat (n div 10) @ [digit_char (n mod 10)])"
  by pat_completeness auto
termination
  by (relation "measure nat") auto

declare show_nat.simps [simp del]

definition show_int :: "int \<Rightarrow> string" where
  "show_int i = (if i < 0 then CHR ''-'' # show_nat (- i) else show_nat i)"

definition round_half_even :: "real \<Rightarrow> int" where
  "round_half_even y =
     (let f = \<lfloor>y\<rfloor>; d = y - of_int f
      in if d < 1 / 2 then f else if 1 / 2 < d then f + 1 else if even f then f else f + 1)"

fun group3 :: "string \<Rightarrow> string" where
  "group3 (a # b # c # d # r) = a # b # c # CHR '','' # group3 (d # r)"
| "group3 s = s"

definition add_commas :: "string \<Rightarrow> string" where
  "add_commas s = rev (group3 (rev s))"

definition pad2 :: "int \<Rightarrow> string" where
  "pad2 n = (if n < 10 then CHR ''0'' # show_nat n else show_nat n)"

definition format_2f :: "bool \<Rightarrow> real \<Rightarrow> string" where
  "format_2f grouping x =
     (let h = round_half_even (\<bar>x\<bar> * 100);
          ip = show_nat (h div 100)
      in (if x < 0 then ''-'' else '''') @ (if grouping then add_commas ip else ip)
           @ ''.'' @ pad2 (h mod 100))"

text \<open>
  A division, and the conversion of an integer to a float, round the exact result to
  the nearest double, ties to even. \<open>pow2 e\<close> is \<open>2\<close> to the power \<open>e\<close>; the binade of a positive number is the
  largest exponent \<open>e \<ge> -1022\<close> with \<open>2\<close> to the \<open>e\<close> at most the number, found by
  stepping from \<open>0\<close> for at most as many steps as there are exponents. A result of
  magnitude \<open>2 ^ 1024 - 2 ^ 970\<close> or more has no double and is an overflow.
\<close>

definition pow2 :: "int \<Rightarrow> real" where
  "pow2 e = (if 0 \<le> e then 2 ^ nat e else 1 / 2 ^ nat (- e))"

fun binade_up :: "nat \<Rightarrow> real \<Rightarrow> int \<Rightarrow> int" where
  "binade_up 0 a e = e"
| "binade_up (Suc n) a e = (if pow2 (e + 1) \<le> a then binade_up n a (e + 1) else e)"

fun binade_down :: "nat \<Rightarrow> real \<Rightarrow> int \<Rightarrow> int" where
  "binade_down 0 a e = e"
| "binade_down (Suc n) a e = (if pow2 e \<le> a then e else binade_down n a (e - 1))"

definition round_double :: "real \<Rightarrow> real" where
  "round_double x =
     (if x = 0 then 0
      else
        let a = \<bar>x\<bar>;
            e = (if 1 \<le> a then binade_up 1024 a 0 else binade_down 1021 a (- 1));
            u = pow2 (e - 52)
        in sgn x * of_int (round_half_even (a / u)) * u)"

definition float_overflow :: "real \<Rightarrow> bool" where
  "float_overflow x \<longleftrightarrow> 2 ^ 1024 - 2 ^ 970 \<le> \<bar>x\<bar>"

text \<open>
  \<^verbatim>\<open>format(v, ".2f")\<close> on a value of any type: \<^verbatim>\<open>None\<close> has no such format
  (TypeError), a string rejects the format code (ValueError), an integer is converted
  to a float first, which raises OverflowError when it is too large.
\<close>

fun py_format_2f :: "bool \<Rightarrow> pyval \<Rightarrow> string result" where
  "py_format_2f g PyNone = Inl TypeError"
| "py_format_2f g (PyStr s) = Inl ValueError"
| "py_format_2f g (PyInt i) =
     (if float_overflow (of_int i) then Inl OverflowError
      else Inr (format_2f g (round_double (of_int i))))"
| "py_format_2f g (PyFloat x) = Inr (format_2f g x)"

text \<open>\<^verbatim>\<open>v != 0\<close>: never raises; a value that is not a number differs from 0.\<close>

fun py_ne_zero :: "pyval \<Rightarrow> bool" where
  "py_ne_zero (PyInt i) = (i \<noteq> 0)"
| "py_ne_zero (PyFloat x) = (x \<noteq> 0)"
| "py_ne_zero v = True"

text \<open>\<^verbatim>\<open>v > 0\<close>: an ordering comparison of \<^verbatim>\<open>None\<close> or a string with an integer raises.\<close>

fun py_gt_zero :: "pyval \<Rightarrow> bool result" where
  "py_gt_zero (PyInt i) = Inr (0 < i)"
| "py_gt_zero (PyFloat x) = Inr (0 < x)"
| "py_gt_zero v = Inl TypeError"

fun py_abs :: "pyval \<Rightarrow> pyval result" where
  "py_abs (PyInt i) = Inr (PyInt \<bar>i\<bar>)"
| "py_abs (PyFloat x) = Inr (PyFloat \<bar>x\<bar>)"
| "py_abs v = Inl TypeError"

text \<open>
  \<^verbatim>\<open>v / n\<close> for a positive integer literal \<open>n\<close> that a double holds exactly: true
  division, the result is the exact quotient rounded to a double. The quotient of two
  integers raises OverflowError when it is too large for a float; the quotient of a float
  by such an \<open>n\<close> is never larger than the float.
\<close>

fun py_truediv :: "pyval \<Rightarrow> int \<Rightarrow> pyval result" where
  "py_truediv (PyInt i) n =
     (if float_overflow (of_int i / of_int n) then Inl OverflowError
      else Inr (PyFloat (round_double (of_int i / of_int n))))"
| "py_truediv (PyFloat x) n = Inr (PyFloat (round_double (x / of_int n)))"
| "py_truediv v n = Inl TypeError"

section \<open>The fact extractor\<close>

text \<open>
  \<^verbatim>\<open>CryptoData\<close> (data_ingestion/fetch_prices.py) and \<^verbatim>\<open>CryptoFact\<close>
  (knowledge/fact_extractor.py) are dataclasses. Python does not check the declared
  field types, so a numeric field holds a number of the declared type or \<^verbatim>\<open>None\<close>.
  The fields \<^verbatim>\<open>id\<close> and \<^verbatim>\<open>timestamp\<close> of \<^verbatim>\<open>CryptoData\<close> are primed here.
\<close>

record CryptoData =
  id' :: string
  symbol :: string
  name :: string
  current_price :: "real option"
  market_cap :: "int option"
  market_cap_rank :: "int option"
  price_change_24h :: "real option"
  price_change_percentage_24h :: "real option"
  volume_24h :: "real option"
  timestamp' :: string
  source :: string

record CryptoFact =
  fact_id :: string
  content :: string
  crypto_id :: string
  crypto_symbol :: string
  fact_type :: string
  timestamp :: string
  metadata :: pydict

fun float_val :: "real option \<Rightarrow> pyval" where
  "float_val None = PyNone"
| "float_val (Some x) = PyFloat x"

fun int_val :: "int option \<Rightarrow> pyval" where
  "int_val None = PyNone"
| "int_val (Some i) = PyInt i"

text \<open>
  \<^verbatim>\<open>str(v)\<close>, as an f-string field without a format specification applies it.
  Python refuses to convert an integer of more than 4300 decimal digits (the default of
  \<^verbatim>\<open>sys.set_int_max_str_digits\<close>) and raises ValueError.
\<close>

definition max_str_digits :: nat where
  "max_str_digits = 4300"

fun py_str :: "pyval \<Rightarrow> string result" where
  "py_str PyNone = Inr ''None''"
| "py_str (PyInt i) =
     (if max_str_digits < length (show_nat \<bar>i\<bar>) then Inl ValueError else Inr (show_int i))"
| "py_str (PyStr s) = Inr s"
| "py_str (PyFloat x) = Inl ValueError"

text \<open>
  The last equation of \<open>py_str\<close> is not Python's: the shortest decimal that reads back
  as a given float is not defined on real numbers. The extractor applies \<open>py_str\<close> to the
  rank only, which is an integer or \<^verbatim>\<open>None\<close>.
\<close>

definition extract_price_facts :: "CryptoData \<Rightarrow> CryptoFact list result" where
  "extract_price_facts crypto =
     and_then (py_format_2f True (float_val (current_price crypto))) (\<lambda>price.
       Inr [\<lparr>fact_id = id' crypto @ ''_price_'' @ timestamp' crypto,
             content = name crypto @ '' ('' @ symbol crypto @ '') is currently trading at $''
                         @ price @ '' USD.'',
             crypto_id = id' crypto,
             crypto_symbol = symbol crypto,
             fact_type = ''price'',
             timestamp = timestamp' crypto,
             metadata = [(''price'', float_val (current_price crypto)),
                         (''currency'', PyStr ''USD''),
                         (''source'', PyStr (source crypto))]\<rparr>])"

definition extract_change_facts :: "CryptoData \<Rightarrow> CryptoFact list result" where
  "extract_change_facts crypto =
     (let change_pct = float_val (price_change_percentage_24h crypto);
          change_abs = float_val (price_change_24h crypto)
      in if py_ne_zero change_pct then
           and_then (py_gt_zero change_pct) (\<lambda>up.
           let direction = (if up then ''increased'' else ''decreased'') in
           and_then (py_abs change_pct) (\<lambda>a_pct.
           and_then (py_format_2f False a_pct) (\<lambda>pct.
           and_then (py_abs change_abs) (\<lambda>a_abs.
           and_then (py_format_2f False a_abs) (\<lambda>dollars.
             Inr [\<lparr>fact_id = id' crypto @ ''_change_'' @ timestamp' crypto,
                   content = name crypto @ '' has '' @ direction @ '' by '' @ pct @ ''% ($''
                               @ dollars @ '') in the last 24 hours.'',
                   crypto_id = id' crypto,
                   crypto_symbol = symbol crypto,
                   fact_type = ''change'',
                   timestamp = timestamp' crypto,
                   metadata = [(''change_percentage'', change_pct),
                               (''change_absolute'', change_abs),
                               (''direction'', PyStr direction),
                               (''timeframe'', PyStr ''24h'')]\<rparr>])))))
         else Inr [])"

definition extract_market_facts :: "CryptoData \<Rightarrow> CryptoFact list result" where
  "extract_market_facts crypto =
     and_then (py_gt_zero (int_val (market_cap crypto))) (\<lambda>positive.
       if positive then
         and_then (py_truediv (int_val (market_cap crypto)) 1000000000) (\<lambda>market_cap_billions.
         and_then (py_format_2f False market_cap_billions) (\<lambda>billions.
         and_then (py_str (int_val (market_cap_rank crypto))) (\<lambda>rank.
           Inr [\<lparr>fact_id = id' crypto @ ''_market_'' @ timestamp' crypto,
                 content = name crypto @ '' has a market capitalization of $'' @ billions
                             @ '' billion USD, ranking #'' @ rank @ '' by market cap.'',
                 crypto_id = id' crypto,
                 crypto_symbol = symbol crypto,
                 fact_type = ''market_cap'',
                 timestamp = timestamp' crypto,
                 metadata = [(''market_cap'', int_val (market_cap crypto)),
                             (''market_cap_billions'', market_cap_billions),
                             (''rank'', int_val (market_cap_rank crypto))]\<rparr>])))
       else Inr [])"

definition extract_volume_facts :: "CryptoData \<Rightarrow> CryptoFact list result" where
  "extract_volume_facts crypto =
     and_then (py_gt_zero (float_val (volume_24h crypto))) (\<lambda>positive.
       if positive then
         and_then (py_truediv (float_val (volume_24h crypto)) 1000000) (\<lambda>volume_millions.
         and_then (py_format_2f False volume_millions) (\<lambda>millions.
           Inr [\<lparr>fact_id = id' crypto @ ''_volume_'' @ timestamp' crypto,
                 content = name crypto @ '' has a 24-hour trading volume of $'' @ millions
                             @ '' million USD.'',
                 crypto_id = id' crypto,
                 crypto_symbol = symbol crypto,
                 fact_type = ''volume'',
                 timestamp = timestamp' crypto,
                 metadata = [(''volume_24h'', float_val (volume_24h crypto)),
                             (''volume_millions'', volume_millions),
                             (''timeframe'', PyStr ''24h'')]\<rparr>]))
       else Inr [])"

text \<open>
  The loop of \<^verbatim>\<open>extract_facts\<close> extends the list \<^verbatim>\<open>facts\<close> record by record.
  There is no \<^verbatim>\<open>try\<close> in the function: an exception of one record ends the call.
\<close>

fun extract_loop :: "CryptoFact list \<Rightarrow> CryptoData list \<Rightarrow> CryptoFact list result" where
  "extract_loop facts [] = Inr facts"
| "extract_loop facts (crypto # rest) =
     and_then (extract_price_facts crypto) (\<lambda>price_facts.
     and_then (extract_change_facts crypto) (\<lambda>change_facts.
     and_then (extract_market_facts crypto) (\<lambda>market_facts.
     and_then (extract_volume_facts crypto) (\<lambda>volume_facts.
       extract_loop (facts @ price_facts @ change_facts @ market_facts @ volume_facts) rest))))"

definition extract_facts :: "CryptoData list \<Rightarrow> CryptoFact list result" where
  "extract_facts crypto_data = extract_loop [] crypto_data"

section \<open>The vector store\<close>

text \<open>
  \<^verbatim>\<open>CryptoVectorStore\<close> (knowledge/embed_store.py) wraps two libraries that are not
  part of the repository: the sentence-transformer model and the ChromaDB collection.
  Each modelled method takes the library calls it makes as arguments: \<open>encode\<close> is
  \<^verbatim>\<open>embedding_model.encode(...).tolist()\<close>, and \<open>collection_add\<close>,
  \<open>collection_query\<close>, \<open>collection_get\<close> are the methods of the collection in its
  current state. An embedding is a value of an arbitrary type \<open>'e\<close>.
\<close>

definition fact_metadata :: "CryptoFact \<Rightarrow> pydict" where
  "fact_metadata f =
     dict_merge [(''crypto_id'', PyStr (crypto_id f)),
                 (''crypto_symbol'', PyStr (crypto_symbol f)),
                 (''fact_type'', PyStr (fact_type f)),
                 (''timestamp'', PyStr (timestamp f))]
                (metadata f)"

definition add_facts ::
  "(string list \<Rightarrow> 'e list) \<Rightarrow>
   (string list \<Rightarrow> pydict list \<Rightarrow> 'e list \<Rightarrow> string list \<Rightarrow> 'c result) \<Rightarrow>
   'c \<Rightarrow> CryptoFact list \<Rightarrow> ('c \<times> nat) result" where
  "add_facts encode collection_add collection fs =
     (if fs = [] then Inr (collection, 0)
      else
        let documents = map content fs;
            metadatas = map fact_metadata fs;
            ids = map fact_id fs;
            embeddings = encode documents
        in and_then (collection_add documents metadatas embeddings ids) (\<lambda>collection'.
             Inr (collection', length fs)))"

text \<open>
  The result of \<^verbatim>\<open>collection.query\<close>: one inner list per query embedding; the
  documents, metadatas and distances are optional in the library's result type.
\<close>

record query_result =
  qr_ids :: "string list list"
  qr_documents :: "string list list option"
  qr_metadatas :: "pydict list list option"
  qr_distances :: "real list list option"

text \<open>
  One entry of the list \<^verbatim>\<open>search_facts\<close> returns, a dictionary with the keys
  \<^verbatim>\<open>content\<close>, \<^verbatim>\<open>metadata\<close>, \<^verbatim>\<open>distance\<close> and \<^verbatim>\<open>id\<close>, to which
  \<^verbatim>\<open>retrieve_facts\<close> adds \<^verbatim>\<open>similarity\<close>. For the two keys that can be absent
  or hold \<^verbatim>\<open>None\<close>, \<open>None\<close> is the absent key and \<open>Some PyNone\<close> is the key
  holding \<^verbatim>\<open>None\<close>.
\<close>

record search_hit =
  hit_content :: string
  hit_metadata :: pydict
  hit_distance :: "pyval option"
  hit_id :: string
  hit_similarity :: "real option"

text \<open>Subscripting: a list out of range raises IndexError, \<^verbatim>\<open>None\<close> raises TypeError.\<close>

definition py_index :: "'a list \<Rightarrow> nat \<Rightarrow> 'a result" where
  "py_index xs i = (if i < length xs then Inr (xs ! i) else Inl IndexError)"

definition py_index_opt :: "'a list option \<Rightarrow> nat \<Rightarrow> 'a result" where
  "py_index_opt xs i = (case xs of None \<Rightarrow> Inl TypeError | Some ys \<Rightarrow> py_index ys i)"

definition format_hit :: "query_result \<Rightarrow> nat \<Rightarrow> search_hit result" where
  "format_hit results i =
     and_then (and_then (py_index_opt (qr_documents results) 0) (\<lambda>d0. py_index d0 i)) (\<lambda>doc.
     and_then (and_then (py_index_opt (qr_metadatas results) 0) (\<lambda>m0. py_index m0 i)) (\<lambda>meta.
     and_then (case qr_distances results of
                 None \<Rightarrow> Inr PyNone
               | Some [] \<Rightarrow> Inr PyNone
               | Some (d0 # ds) \<Rightarrow> and_then (py_index d0 i) (\<lambda>d. Inr (PyFloat d))) (\<lambda>dist.
     and_then (and_then (py_index (qr_ids results) 0) (\<lambda>i0. py_index i0 i)) (\<lambda>ident.
       Inr \<lparr>hit_content = doc, hit_metadata = meta, hit_distance = Some dist,
            hit_id = ident, hit_similarity = None\<rparr>))))"

fun format_loop :: "query_result \<Rightarrow> search_hit list \<Rightarrow> nat list \<Rightarrow> search_hit list result" where
  "format_loop results formatted_results [] = Inr formatted_results"
| "format_loop results formatted_results (i # rest) =
     and_then (format_hit results i) (\<lambda>h. format_loop results (formatted_results @ [h]) rest)"

definition search_facts ::
  "(string list \<Rightarrow> 'e list) \<Rightarrow> ('e list \<Rightarrow> int \<Rightarrow> pydict option \<Rightarrow> query_result result) \<Rightarrow>
   string \<Rightarrow> int \<Rightarrow> string option \<Rightarrow> search_hit list result" where
  "search_facts encode collection_query query_text n_results crypto_filter =
     and_then (py_index (encode [query_text]) 0) (\<lambda>query_embedding.
       let where_clause = (case crypto_filter of
                             None \<Rightarrow> []
                           | Some f \<Rightarrow> if f = [] then [] else [(''crypto_symbol'', PyStr f)])
       in and_then (collection_query [query_embedding] n_results
                      (if where_clause = [] then None else Some where_clause)) (\<lambda>results.
            case qr_documents results of
              None \<Rightarrow> Inr []
            | Some [] \<Rightarrow> Inr []
            | Some (d0 # ds) \<Rightarrow>
                if d0 = [] then Inr [] else format_loop results [] [0..<length d0]))"

text \<open>
  \<^verbatim>\<open>get_collection_stats\<close> returns a dictionary; \<^verbatim>\<open>list(set(...))\<close> is a list in
  an unspecified order and is modelled by the set.
\<close>

datatype stat_value = Count nat | Names "pyval set"

definition get_collection_stats :: "nat \<Rightarrow> (nat \<Rightarrow> pydict list) \<Rightarrow> (string \<times> stat_value) list" where
  "get_collection_stats collection_count collection_get =
     (let count = collection_count in
      if 0 < count then
        let sample = collection_get (min 100 count);
            crypto_symbols = set (map (\<lambda>m. dict_get m ''crypto_symbol'' (PyStr ''unknown'')) sample);
            fact_types = set (map (\<lambda>m. dict_get m ''fact_type'' (PyStr ''unknown'')) sample)
        in [(''total_facts'', Count count),
            (''unique_cryptos'', Count (card crypto_symbols)),
            (''crypto_symbols'', Names crypto_symbols),
            (''fact_types'', Names fact_types)]
      else [(''total_facts'', Count 0)])"

subsection \<open>The collection\<close>

text \<open>
  A collection in the state the claims speak about: the stored records in insertion
  order, each with its id, document, metadata and embedding. The three operations follow
  the documented behaviour of the ChromaDB collection the store is built on:
  \<^verbatim>\<open>add\<close> rejects a batch that repeats an id or whose lists differ in length, stores
  the records whose id is new and leaves a record whose id is already stored as it is
  (overwriting is what the library's separate \<^verbatim>\<open>upsert\<close> call does, which the store
  never calls); \<^verbatim>\<open>count\<close> is the number of records; \<^verbatim>\<open>get(limit=n)\<close> returns the
  first \<open>n\<close> records.
\<close>

record 'e stored =
  stored_id :: string
  stored_document :: string
  stored_metadata :: pydict
  stored_embedding :: 'e

fun batch_rows :: "string list \<Rightarrow> pydict list \<Rightarrow> 'e list \<Rightarrow> string list \<Rightarrow> 'e stored list" where
  "batch_rows (d # ds) (m # ms) (e # es) (i # is) =
     \<lparr>stored_id = i, stored_document = d, stored_metadata = m, stored_embedding = e\<rparr>
       # batch_rows ds ms es is"
| "batch_rows ds ms es is = []"

definition chroma_add ::
  "'e stored list \<Rightarrow> string list \<Rightarrow> pydict list \<Rightarrow> 'e list \<Rightarrow> string list \<Rightarrow> 'e stored list result" where
  "chroma_add rows documents metadatas embeddings ids =
     (if length documents \<noteq> length ids \<or> length metadatas \<noteq> length ids
           \<or> length embeddings \<noteq> length ids then Inl ValueError
      else if \<not> distinct ids then Inl DuplicateIDError
      else Inr (rows @ filter (\<lambda>r. stored_id r \<notin> set (map stored_id rows))
                         (batch_rows documents metadatas embeddings ids)))"

definition chroma_count :: "'e stored list \<Rightarrow> nat" where
  "chroma_count rows = length rows"

definition chroma_get :: "'e stored list \<Rightarrow> nat \<Rightarrow> pydict list" where
  "chroma_get rows limit = map stored_metadata (take limit rows)"

section \<open>The retriever\<close>

text \<open>
  \<^verbatim>\<open>retrieve_facts\<close> (rag_pipeline/retriever.py). The two readings of the clock are
  the argument \<open>clock\<close>. \<open>py_one_minus\<close> is \<^verbatim>\<open>1 - v\<close>, which raises TypeError
  on \<^verbatim>\<open>None\<close> and on a string; the difference is the exact one, without the
  rounding of the float subtraction.
\<close>

record RetrievalResult =
  query :: string
  facts :: "search_hit list"
  total_found :: nat
  retrieval_time :: real

fun py_one_minus :: "pyval \<Rightarrow> real result" where
  "py_one_minus (PyFloat d) = Inr (1 - d)"
| "py_one_minus (PyInt i) = Inr (1 - of_int i)"
| "py_one_minus v = Inl TypeError"

fun filter_loop :: "real \<Rightarrow> search_hit list \<Rightarrow> search_hit list \<Rightarrow> search_hit list result" where
  "filter_loop relevance_threshold filtered_facts [] = Inr filtered_facts"
| "filter_loop relevance_threshold filtered_facts (r # rest) =
     and_then (py_one_minus (case hit_distance r of None \<Rightarrow> PyFloat 1 | Some v \<Rightarrow> v)) (\<lambda>similarity.
       filter_loop relevance_threshold
         (if relevance_threshold \<le> similarity
          then filtered_facts @ [r\<lparr>hit_similarity := Some similarity\<rparr>]
          else filtered_facts)
         rest)"

text \<open>The slice \<^verbatim>\<open>xs[:k]\<close>; a negative \<open>k\<close> drops the last \<open>-k\<close> elements.\<close>

definition py_take :: "int \<Rightarrow> 'a list \<Rightarrow> 'a list" where
  "py_take k xs = (if 0 \<le> k then take (nat k) xs else take (length xs - nat (- k)) xs)"

definition retrieve_facts ::
  "(string list \<Rightarrow> 'e list) \<Rightarrow> ('e list \<Rightarrow> int \<Rightarrow> pydict option \<Rightarrow> query_result result) \<Rightarrow>
   real \<times> real \<Rightarrow> string \<Rightarrow> int \<Rightarrow> string option \<Rightarrow> real \<Rightarrow> RetrievalResult result" where
  "retrieve_facts encode collection_query clock query_text max_facts crypto_filter relevance_threshold =
     and_then (search_facts encode collection_query query_text (max_facts * 2) crypto_filter)
       (\<lambda>raw_results.
     and_then (filter_loop relevance_threshold [] raw_results) (\<lambda>filtered_facts.
       Inr \<lparr>query = query_text,
            facts = py_take max_facts filtered_facts,
            total_found = length raw_results,
            retrieval_time = snd clock - fst clock\<rparr>))"

text \<open>
  \<^verbatim>\<open>analyze_query_intent\<close>. \<open>lower\<close> is \<^verbatim>\<open>str.lower\<close> on ASCII letters (the
  keyword tables are ASCII), \<open>contains s sub\<close> is \<^verbatim>\<open>sub in s\<close>.
\<close>

definition lower_char :: "char \<Rightarrow> char" where
  "lower_char c =
     (case map_of (zip ''ABCDEFGHIJKLMNOPQRSTUVWXYZ'' ''abcdefghijklmnopqrstuvwxyz'') c of
        None \<Rightarrow> c
      | Some l \<Rightarrow> l)"

definition lower :: "string \<Rightarrow> string" where
  "lower s = map lower_char s"

fun startswith :: "string \<Rightarrow> string \<Rightarrow> bool" where
  "startswith s [] = True"
| "startswith [] (p # ps) = False"
| "startswith (c # s) (p # ps) = (c = p \<and> startswith s ps)"

fun contains :: "string \<Rightarrow> string \<Rightarrow> bool" where
  "contains [] sub = (sub = [])"
| "contains (c # s) sub = (startswith (c # s) sub \<or> contains s sub)"

definition crypto_mapping :: "(string \<times> string) list" where
  "crypto_mapping =
     [(''bitcoin'', ''BTC''), (''btc'', ''BTC''),
      (''ethereum'', ''ETH''), (''eth'', ''ETH''),
      (''cardano'', ''ADA''), (''ada'', ''ADA''),
      (''solana'', ''SOL''), (''sol'', ''SOL''),
      (''polkadot'', ''DOT''), (''dot'', ''DOT''),
      (''chainlink'', ''LINK''), (''link'', ''LINK''),
      (''polygon'', ''MATIC''), (''matic'', ''MATIC''),
      (''avalanche'', ''AVAX''), (''avax'', ''AVAX'')]"

definition intent_keywords :: "(string \<times> string list) list" where
  "intent_keywords =
     [(''price'', [''price'', ''cost'', ''value'', ''worth'', ''trading'']),
      (''change'', [''change'', ''increase'', ''decrease'', ''up'', ''down'', ''gain'', ''loss'']),
      (''market_cap'', [''market cap'', ''market capitalization'', ''valuation'']),
      (''volume'', [''volume'', ''trading volume'', ''liquidity'']),
      (''ranking'', [''rank'', ''ranking'', ''position'', ''top''])]"

record query_intent =
  cryptos :: "string set"
  intents :: "string list"
  is_comparison :: bool
  is_general :: bool

definition analyze_query_intent :: "string \<Rightarrow> query_intent" where
  "analyze_query_intent query_text =
     (let query_lower = lower query_text;
          mentioned_cryptos = map snd (filter (\<lambda>(nm, sym). contains query_lower nm) crypto_mapping);
          detected_intents =
            map fst (filter (\<lambda>(intent, keywords). list_ex (contains query_lower) keywords)
                       intent_keywords)
      in \<lparr>cryptos = set mentioned_cryptos,
          intents = detected_intents,
          is_comparison = list_ex (contains query_lower) [''compare'', ''vs'', ''versus'', ''between''],
          is_general = (length mentioned_cryptos = 0)\<rparr>)"

text \<open>
  \<^verbatim>\<open>Config.validate\<close> (utils/config.py) reads the API key and nothing else; the
  configuration class has no field for a similarity threshold.
\<close>

definition validate :: "string \<Rightarrow> bool" where
  "validate groq_api_key = (groq_api_key \<noteq> [])"

section \<open>Notions used in the statements\<close>

text \<open>The facts that one pass through the body of the loop of \<^verbatim>\<open>extract_facts\<close> appends.\<close>

definition record_facts :: "CryptoData \<Rightarrow> CryptoFact list result" where
  "record_facts crypto =
     and_then (extract_price_facts crypto) (\<lambda>price_facts.
     and_then (extract_change_facts crypto) (\<lambda>change_facts.
     and_then (extract_market_facts crypto) (\<lambda>market_facts.
     and_then (extract_volume_facts crypto) (\<lambda>volume_facts.
       Inr (price_facts @ change_facts @ market_facts @ volume_facts)))))"

text \<open>
  A derivation of the content of a fact from the name of the entity, the metadata, the
  symbol and the fact type. It reads the metadata only through the keys the extractor
  writes and fails on a fact type it does not know.
\<close>

definition derive_content :: "string \<Rightarrow> pydict \<Rightarrow> string \<Rightarrow> string \<Rightarrow> string result" where
  "derive_content nm md smb ftype =
     (if ftype = ''price'' then
        and_then (py_format_2f True (dict_get md ''price'' PyNone)) (\<lambda>price.
          Inr (nm @ '' ('' @ smb @ '') is currently trading at $'' @ price @ '' USD.''))
      else if ftype = ''change'' then
        and_then (py_str (dict_get md ''direction'' PyNone)) (\<lambda>direction.
        and_then (py_abs (dict_get md ''change_percentage'' PyNone)) (\<lambda>a_pct.
        and_then (py_format_2f False a_pct) (\<lambda>pct.
        and_then (py_abs (dict_get md ''change_absolute'' PyNone)) (\<lambda>a_abs.
        and_then (py_format_2f False a_abs) (\<lambda>dollars.
          Inr (nm @ '' has '' @ direction @ '' by '' @ pct @ ''% ($'' @ dollars
                 @ '') in the last 24 hours.''))))))
      else if ftype = ''market_cap'' then
        and_then (py_format_2f False (dict_get md ''market_cap_billions'' PyNone)) (\<lambda>billions.
        and_then (py_str (dict_get md ''rank'' PyNone)) (\<lambda>rank.
          Inr (nm @ '' has a market capitalization of $'' @ billions
                 @ '' billion USD, ranking #'' @ rank @ '' by market cap.'')))
      else if ftype = ''volume'' then
        and_then (py_format_2f False (dict_get md ''volume_millions'' PyNone)) (\<lambda>millions.
          Inr (nm @ '' has a 24-hour trading volume of $'' @ millions @ '' million USD.''))
      else Inl ValueError)"

text \<open>What every fact owes to the record it was extracted from.\<close>

definition from_record :: "CryptoData \<Rightarrow> CryptoFact \<Rightarrow> bool" where
  "from_record c f \<longleftrightarrow>
     crypto_id f = id' c \<and> crypto_symbol f = symbol c \<and> timestamp f = timestamp' c \<and>
     fact_type f \<in> {''price'', ''change'', ''market_cap'', ''volume''} \<and>
     fact_id f = id' c @ ''_'' @ (if fact_type f = ''market_cap'' then ''market'' else fact_type f)
                   @ ''_'' @ timestamp' c \<and>
     derive_content (name c) (metadata f) (crypto_symbol f) (fact_type f) = Inr (content f)"

text \<open>
  The records the fetcher builds: \<^verbatim>\<open>fetch_top_cryptocurrencies\<close> converts every
  numeric field with \<^verbatim>\<open>float(x or 0)\<close> or \<^verbatim>\<open>int(x or 0)\<close> and skips a coin
  whose conversion fails, so the numeric fields of a record it returns hold numbers.
  \<open>numbers_in_range\<close> says so of the four float fields and of the market cap, and asks
  in addition that the market cap in billions is not too large for a float and that the
  rank, when there is one, has no more digits than \<^verbatim>\<open>str\<close> converts.
  \<open>lacks_number\<close> says that one of the four fields the extractor compares or formats
  without a test before it holds \<^verbatim>\<open>None\<close>.
\<close>

definition numbers_in_range :: "CryptoData \<Rightarrow> bool" where
  "numbers_in_range c \<longleftrightarrow>
     current_price c \<noteq> None \<and> price_change_24h c \<noteq> None \<and>
     price_change_percentage_24h c \<noteq> None \<and> volume_24h c \<noteq> None \<and>
     (case market_cap c of
        None \<Rightarrow> False
      | Some m \<Rightarrow> \<not> float_overflow (of_int m / 1000000000)) \<and>
     (case market_cap_rank c of
        None \<Rightarrow> True
      | Some r \<Rightarrow> length (show_nat \<bar>r\<bar>) \<le> max_str_digits)"

definition lacks_number :: "CryptoData \<Rightarrow> bool" where
  "lacks_number c \<longleftrightarrow>
     current_price c = None \<or> market_cap c = None \<or>
     price_change_percentage_24h c = None \<or> volume_24h c = None"

text \<open>
  The record \<^verbatim>\<open>add_facts\<close> hands to the collection for the fact at position \<open>i\<close> of
  its list.
\<close>

definition fact_row :: "(string list \<Rightarrow> 'e list) \<Rightarrow> CryptoFact list \<Rightarrow> nat \<Rightarrow> 'e stored" where
  "fact_row encode fs i =
     \<lparr>stored_id = fact_id (fs ! i),
      stored_document = content (fs ! i),
      stored_metadata = fact_metadata (fs ! i),
      stored_embedding = encode (map content fs) ! i\<rparr>"


text \<open>The shapes of the distance of a search hit.\<close>

definition float_distance :: "search_hit \<Rightarrow> bool" where
  "float_distance h \<longleftrightarrow> (\<exists>d. hit_distance h = Some (PyFloat d))"

definition store_hit :: "search_hit \<Rightarrow> bool" where
  "store_hit h \<longleftrightarrow> hit_distance h = Some PyNone \<or> float_distance h"

definition relevant :: "real \<Rightarrow> search_hit \<Rightarrow> bool" where
  "relevant t h \<longleftrightarrow>
     (\<exists>d. hit_distance h = Some (PyFloat d) \<and> hit_similarity h = Some (1 - d) \<and> t \<le> 1 - d)"

definition stored_symbol :: "'e stored \<Rightarrow> pyval" where
  "stored_symbol r = dict_get (stored_metadata r) ''crypto_symbol'' (PyStr ''unknown'')"

definition stored_type :: "'e stored \<Rightarrow> pyval" where
  "stored_type r = dict_get (stored_metadata r) ''fact_type'' (PyStr ''unknown'')"

section \<open>Concrete inputs\<close>

text \<open>The snapshot of the end-to-end example of the specification.\<close>

definition btc :: CryptoData where
  "btc = \<lparr>id' = ''bitcoin'', symbol = ''BTC'', name = ''Bitcoin'', current_price = Some 50000,
     market_cap = Some 950000000000, market_cap_rank = Some 1, price_change_24h = Some 1200,
     price_change_percentage_24h = Some 2.5, volume_24h = Some 25000000000,
     timestamp' = ''2024-01-01T00:00:00+00:00'', source = ''coingecko''\<rparr>"

definition btc_price_fact :: CryptoFact where
  "btc_price_fact =
     \<lparr>fact_id = ''bitcoin_price_2024-01-01T00:00:00+00:00'',
      content = ''Bitcoin (BTC) is currently trading at $50,000.00 USD.'',
      crypto_id = ''bitcoin'', crypto_symbol = ''BTC'', fact_type = ''price'',
      timestamp = ''2024-01-01T00:00:00+00:00'',
      metadata = [(''price'', PyFloat 50000), (''currency'', PyStr ''USD''),
                  (''source'', PyStr ''coingecko'')]\<rparr>"

definition btc_change_fact :: CryptoFact where
  "btc_change_fact =
     \<lparr>fact_id = ''bitcoin_change_2024-01-01T00:00:00+00:00'',
      content = ''Bitcoin has increased by 2.50% ($1200.00) in the last 24 hours.'',
      crypto_id = ''bitcoin'', crypto_symbol = ''BTC'', fact_type = ''change'',
      timestamp = ''2024-01-01T00:00:00+00:00'',
      metadata = [(''change_percentage'', PyFloat 2.5), (''change_absolute'', PyFloat 1200),
                  (''direction'', PyStr ''increased''), (''timeframe'', PyStr ''24h'')]\<rparr>"

definition btc_market_fact :: CryptoFact where
  "btc_market_fact =
     \<lparr>fact_id = ''bitcoin_market_2024-01-01T00:00:00+00:00'',
      content = ''Bitcoin has a market capitalization of $950.00 billion USD, ranking #1 by market cap.'',
      crypto_id = ''bitcoin'', crypto_symbol = ''BTC'', fact_type = ''market_cap'',
      timestamp = ''2024-01-01T00:00:00+00:00'',
      metadata = [(''market_cap'', PyInt 950000000000), (''market_cap_billions'', PyFloat 950),
                  (''rank'', PyInt 1)]\<rparr>"

definition btc_volume_fact :: CryptoFact where
  "btc_volume_fact =
     \<lparr>fact_id = ''bitcoin_volume_2024-01-01T00:00:00+00:00'',
      content = ''Bitcoin has a 24-hour trading volume of $25000.00 million USD.'',
      crypto_id = ''bitcoin'', crypto_symbol = ''BTC'', fact_type = ''volume'',
      timestamp = ''2024-01-01T00:00:00+00:00'',
      metadata = [(''volume_24h'', PyFloat 25000000000), (''volume_millions'', PyFloat 25000),
                  (''timeframe'', PyStr ''24h'')]\<rparr>"

text \<open>The same coin under another name, and a coin with a negative price.\<close>

definition btc_renamed :: CryptoData where
  "btc_renamed = btc\<lparr>name := ''Wrapped Bitcoin''\<rparr>"

definition negative_priced :: CryptoData where
  "negative_priced = \<lparr>id' = ''testcoin'', symbol = ''TST'', name = ''Test Coin'',
     current_price = Some (- 1), market_cap = Some 0, market_cap_rank = Some 0,
     price_change_24h = Some 0, price_change_percentage_24h = Some 0, volume_24h = Some 0,
     timestamp' = ''2024-01-01T00:00:00+00:00'', source = ''coingecko''\<rparr>"

definition negative_price_fact :: CryptoFact where
  "negative_price_fact =
     \<lparr>fact_id = ''testcoin_price_2024-01-01T00:00:00+00:00'',
      content = ''Test Coin (TST) is currently trading at $-1.00 USD.'',
      crypto_id = ''testcoin'', crypto_symbol = ''TST'', fact_type = ''price'',
      timestamp = ''2024-01-01T00:00:00+00:00'',
      metadata = [(''price'', PyFloat (- 1)), (''currency'', PyStr ''USD''),
                  (''source'', PyStr ''coingecko'')]\<rparr>"

text \<open>
  An embedding function and two collections as seen through \<^verbatim>\<open>query\<close>. The
  first holds three facts at the distances 0.1, 0.15 and 0.5 from any query. The answer
  of the second carries no distances: this is the case the branch
  \<^verbatim>\<open>if results['distances'] else None\<close> of \<^verbatim>\<open>search_facts\<close> provides for. The
  ChromaDB collection does not answer so to the call \<^verbatim>\<open>search_facts\<close> makes, which
  passes no \<^verbatim>\<open>include\<close> argument and so asks for the distances.
\<close>

definition sample_encode :: "string list \<Rightarrow> nat list" where
  "sample_encode texts = map length texts"

definition sample_query :: "nat list \<Rightarrow> int \<Rightarrow> pydict option \<Rightarrow> query_result result" where
  "sample_query query_embeddings n_results where_clause =
     (if n_results \<le> 0 then Inl ValueError
      else Inr \<lparr>qr_ids = [take (nat n_results) [''bitcoin_price_t1'', ''bitcoin_change_t1'', ''bitcoin_volume_t1'']],
               qr_documents = Some [take (nat n_results)
                 [''Bitcoin (BTC) is currently trading at $50,000.00 USD.'',
                  ''Bitcoin has increased by 2.50% ($1200.00) in the last 24 hours.'',
                  ''Bitcoin has a 24-hour trading volume of $25000.00 million USD.'']],
               qr_metadatas = Some [take (nat n_results)
                 [[(''crypto_symbol'', PyStr ''BTC''), (''fact_type'', PyStr ''price'')],
                  [(''crypto_symbol'', PyStr ''BTC''), (''fact_type'', PyStr ''change'')],
                  [(''crypto_symbol'', PyStr ''BTC''), (''fact_type'', PyStr ''volume'')]]],
               qr_distances = Some [take (nat n_results) [0.1, 0.15, 0.5]]\<rparr>)"


definition price_hit :: search_hit where
  "price_hit = \<lparr>hit_content = ''Bitcoin (BTC) is currently trading at $50,000.00 USD.'',
                 hit_metadata = [(''crypto_symbol'', PyStr ''BTC''), (''fact_type'', PyStr ''price'')],
                 hit_distance = Some (PyFloat 0.1), hit_id = ''bitcoin_price_t1'',
                 hit_similarity = None\<rparr>"

definition change_hit :: search_hit where
  "change_hit = \<lparr>hit_content = ''Bitcoin has increased by 2.50% ($1200.00) in the last 24 hours.'',
                 hit_metadata = [(''crypto_symbol'', PyStr ''BTC''), (''fact_type'', PyStr ''change'')],
                 hit_distance = Some (PyFloat 0.15), hit_id = ''bitcoin_change_t1'',
                 hit_similarity = None\<rparr>"

text \<open>
  A stored record and a fact with the same id and a newer price; the record that the
  change fact of the example snapshot becomes in the collection; and a collection of 101
  records, a hundred price facts of one coin followed by one of another.
\<close>

definition old_row :: "nat stored" where
  "old_row = \<lparr>stored_id = ''bitcoin_price_t1'',
              stored_document = ''Bitcoin (BTC) is currently trading at $49,000.00 USD.'',
              stored_metadata = [(''crypto_id'', PyStr ''bitcoin''), (''crypto_symbol'', PyStr ''BTC''),
                                 (''fact_type'', PyStr ''price''), (''timestamp'', PyStr ''t1''),
                                 (''price'', PyFloat 49000), (''currency'', PyStr ''USD''),
                                 (''source'', PyStr ''coingecko'')],
              stored_embedding = 53\<rparr>"

definition new_fact :: CryptoFact where
  "new_fact = \<lparr>fact_id = ''bitcoin_price_t1'',
               content = ''Bitcoin (BTC) is currently trading at $50,000.00 USD.'',
               crypto_id = ''bitcoin'', crypto_symbol = ''BTC'', fact_type = ''price'',
               timestamp = ''t1'',
               metadata = [(''price'', PyFloat 50000), (''currency'', PyStr ''USD''),
                           (''source'', PyStr ''coingecko'')]\<rparr>"

definition change_row :: "nat stored" where
  "change_row =
     \<lparr>stored_id = ''bitcoin_change_2024-01-01T00:00:00+00:00'',
      stored_document = ''Bitcoin has increased by 2.50% ($1200.00) in the last 24 hours.'',
      stored_metadata = [(''crypto_id'', PyStr ''bitcoin''), (''crypto_symbol'', PyStr ''BTC''),
                         (''fact_type'', PyStr ''change''),
                         (''timestamp'', PyStr ''2024-01-01T00:00:00+00:00''),
                         (''change_percentage'', PyFloat 2.5), (''change_absolute'', PyFloat 1200),
                         (''direction'', PyStr ''increased''), (''timeframe'', PyStr ''24h'')],
      stored_embedding = 63\<rparr>"

definition price_row :: "string \<Rightarrow> string \<Rightarrow> int \<Rightarrow> nat stored" where
  "price_row coin smb t =
     \<lparr>stored_id = coin @ ''_price_'' @ show_int t,
      stored_document = coin @ '' price at '' @ show_int t,
      stored_metadata = [(''crypto_id'', PyStr coin), (''crypto_symbol'', PyStr smb),
                         (''fact_type'', PyStr ''price''), (''timestamp'', PyStr (show_int t))],
      stored_embedding = 0\<rparr>"

definition hundred_and_one :: "nat stored list" where
  "hundred_and_one =
     map (\<lambda>t. price_row ''bitcoin'' ''BTC'' (int t)) [0..<100] @ [price_row ''ethereum'' ''ETH'' 100]"


section \<open>Sequencing\<close>

lemma and_then_Inr [simp]: "and_then (Inr x) f = f x"
  by (simp add: and_then_def)

lemma and_then_Inl [simp]: "and_then (Inl e) f = Inl e"
  by (simp add: and_then_def)

lemma and_then_eq_Inr: "and_then r f = Inr y \<longleftrightarrow> (\<exists>x. r = Inr x \<and> f x = Inr y)"
  by (cases r) simp_all

lemma notin_image_conv: "a \<notin> f ` A \<longleftrightarrow> (\<forall>x\<in>A. f x \<noteq> a)"
  by auto

section \<open>Properties of the extractor\<close>

subsection \<open>The loop, record by record\<close>

lemma extract_loop_step:
  "extract_loop acc (c # cs) = and_then (record_facts c) (\<lambda>gs. extract_loop (acc @ gs) cs)"
  by (auto simp: record_facts_def and_then_def split: sum.splits)

lemma extract_loop_chunks:
  "extract_loop acc cs = Inr fs \<Longrightarrow>
     \<exists>fss. list_all2 (\<lambda>c gs. record_facts c = Inr gs) cs fss \<and> fs = acc @ concat fss"
proof (induction cs arbitrary: acc)
  case Nil
  then show ?case by simp
next
  case (Cons c cs)
  from Cons.prems obtain gs where g: "record_facts c = Inr gs"
    and rest: "extract_loop (acc @ gs) cs = Inr fs"
    unfolding extract_loop_step by (auto simp: and_then_eq_Inr)
  from Cons.IH [OF rest] obtain fss
    where "list_all2 (\<lambda>c gs. record_facts c = Inr gs) cs fss" "fs = (acc @ gs) @ concat fss"
    by blast
  with g have "list_all2 (\<lambda>c gs. record_facts c = Inr gs) (c # cs) (gs # fss)
      \<and> fs = acc @ concat (gs # fss)"
    by simp
  then show ?case by blast
qed

lemma extract_facts_chunks:
  "extract_facts cs = Inr fs \<Longrightarrow>
     \<exists>fss. list_all2 (\<lambda>c gs. record_facts c = Inr gs) cs fss \<and> fs = concat fss"
  using extract_loop_chunks [of "[]" cs fs] by (simp add: extract_facts_def)

subsection \<open>The four kinds of fact\<close>

lemma price_facts_from_record:
  "extract_price_facts c = Inr gs \<Longrightarrow>
     (\<forall>f\<in>set gs. from_record c f) \<and> map fact_type gs = [''price'']"
  by (cases "current_price c")
     (auto simp: extract_price_facts_def from_record_def derive_content_def dict_get_def)

lemma change_facts_from_record:
  "extract_change_facts c = Inr gs \<Longrightarrow>
     (\<forall>f\<in>set gs. from_record c f) \<and> (\<forall>f\<in>set gs. fact_type f \<noteq> ''price'')"
  by (cases "price_change_percentage_24h c"; cases "price_change_24h c")
     (auto simp: extract_change_facts_def from_record_def derive_content_def dict_get_def Let_def
           split: if_splits)

lemma market_facts_from_record:
  "extract_market_facts c = Inr gs \<Longrightarrow>
     (\<forall>f\<in>set gs. from_record c f) \<and> (\<forall>f\<in>set gs. fact_type f \<noteq> ''price'')"
  by (cases "market_cap c"; cases "market_cap_rank c")
     (auto simp: extract_market_facts_def from_record_def derive_content_def dict_get_def
           split: if_splits)

lemma volume_facts_from_record:
  "extract_volume_facts c = Inr gs \<Longrightarrow>
     (\<forall>f\<in>set gs. from_record c f) \<and> (\<forall>f\<in>set gs. fact_type f \<noteq> ''price'')"
  by (cases "volume_24h c")
     (auto simp: extract_volume_facts_def from_record_def derive_content_def dict_get_def
           split: if_splits)

lemma record_facts_from_record:
  assumes "record_facts c = Inr gs"
  shows "(\<forall>f\<in>set gs. from_record c f)
         \<and> map crypto_id (filter (\<lambda>f. fact_type f = ''price'') gs) = [id' c]"
proof -
  from assms obtain ps cs ms vs where
    p: "extract_price_facts c = Inr ps" and ch: "extract_change_facts c = Inr cs" and
    m: "extract_market_facts c = Inr ms" and v: "extract_volume_facts c = Inr vs" and
    gs: "gs = ps @ cs @ ms @ vs"
    by (auto simp: record_facts_def and_then_eq_Inr)
  note P = price_facts_from_record [OF p] and C = change_facts_from_record [OF ch]
    and M = market_facts_from_record [OF m] and V = volume_facts_from_record [OF v]
  have all: "\<forall>f\<in>set gs. from_record c f"
    using P C M V by (auto simp: gs)
  have nop: "filter (\<lambda>f. fact_type f = ''price'') cs = []"
    "filter (\<lambda>f. fact_type f = ''price'') ms = []" "filter (\<lambda>f. fact_type f = ''price'') vs = []"
    using C M V by (simp_all add: filter_empty_conv)
  from P obtain f where ps: "ps = [f]" and ft: "fact_type f = ''price''" and "from_record c f"
    by (cases ps) auto
  then have "map crypto_id (filter (\<lambda>f. fact_type f = ''price'') ps) = [id' c]"
    by (simp add: from_record_def)
  with nop all show ?thesis by (simp add: gs)
qed

lemma extract_facts_from_record:
  assumes "extract_facts cs = Inr fs" and "f \<in> set fs"
  shows "\<exists>c\<in>set cs. from_record c f"
proof -
  from extract_facts_chunks [OF assms(1)] obtain fss
    where l: "list_all2 (\<lambda>c gs. record_facts c = Inr gs) cs fss" and fs: "fs = concat fss"
    by blast
  from assms(2) fs obtain gs where "gs \<in> set fss" "f \<in> set gs" by auto
  then obtain i where i: "i < length fss" "fss ! i = gs" by (auto simp: in_set_conv_nth)
  with l have "record_facts (cs ! i) = Inr gs" "i < length cs"
    by (auto simp: list_all2_conv_all_nth)
  with record_facts_from_record \<open>f \<in> set gs\<close> have "from_record (cs ! i) f" "cs ! i \<in> set cs"
    by auto
  then show ?thesis by blast
qed

lemma price_facts_of_chunks:
  "list_all2 (\<lambda>c gs. record_facts c = Inr gs) cs fss \<Longrightarrow>
     map crypto_id (filter (\<lambda>f. fact_type f = ''price'') (concat fss)) = map id' cs"
  by (induction cs fss rule: list_all2_induct) (auto dest: record_facts_from_record)

lemma extract_facts_single: "extract_facts [c] = record_facts c"
  unfolding extract_facts_def extract_loop_step by (cases "record_facts c") simp_all

lemma extract_loop_total:
  "list_all2 (\<lambda>c gs. record_facts c = Inr gs) cs fss \<Longrightarrow>
     extract_loop acc cs = Inr (acc @ concat fss)"
proof (induction cs arbitrary: acc fss)
  case Nil
  then show ?case by simp
next
  case (Cons c cs)
  then show ?case unfolding extract_loop_step by (auto simp: list_all2_Cons1)
qed

lemma record_facts_total:
  assumes "numbers_in_range c"
  shows "\<exists>gs. record_facts c = Inr gs \<and> gs \<noteq> []"
proof -
  from assms obtain p mc a pc v where
    "current_price c = Some p" "market_cap c = Some mc" "price_change_24h c = Some a"
    "price_change_percentage_24h c = Some pc" "volume_24h c = Some v"
    and "\<not> float_overflow (of_int mc / 1000000000)"
    by (auto simp: numbers_in_range_def split: option.splits)
  moreover from assms have "market_cap_rank c = None
      \<or> (\<exists>r. market_cap_rank c = Some r \<and> \<not> max_str_digits < length (show_nat \<bar>r\<bar>))"
    by (auto simp: numbers_in_range_def split: option.splits)
  ultimately show ?thesis
    by (auto simp: record_facts_def extract_price_facts_def extract_change_facts_def
          extract_market_facts_def extract_volume_facts_def Let_def)
qed

lemma records_total:
  "\<forall>c\<in>set cs. numbers_in_range c \<Longrightarrow>
     \<exists>fss. list_all2 (\<lambda>c gs. record_facts c = Inr gs \<and> gs \<noteq> []) cs fss"
proof (induction cs)
  case Nil
  then show ?case by simp
next
  case (Cons c cs)
  then obtain gs fss where "record_facts c = Inr gs \<and> gs \<noteq> []"
    and "list_all2 (\<lambda>c gs. record_facts c = Inr gs \<and> gs \<noteq> []) cs fss"
    using record_facts_total [of c] by auto
  then have "list_all2 (\<lambda>c gs. record_facts c = Inr gs \<and> gs \<noteq> []) (c # cs) (gs # fss)"
    by simp
  then show ?case by blast
qed

lemma record_facts_raises:
  assumes "lacks_number c"
  shows "\<exists>e. record_facts c = Inl e"
proof -
  have p: "extract_price_facts c = Inl TypeError" if "current_price c = None"
    using that by (simp add: extract_price_facts_def)
  have ch: "extract_change_facts c = Inl TypeError" if "price_change_percentage_24h c = None"
    using that by (simp add: extract_change_facts_def Let_def)
  have m: "extract_market_facts c = Inl TypeError" if "market_cap c = None"
    using that by (simp add: extract_market_facts_def)
  have v: "extract_volume_facts c = Inl TypeError" if "volume_24h c = None"
    using that by (simp add: extract_volume_facts_def)
  from assms p ch m v show ?thesis
    by (cases "extract_price_facts c"; cases "extract_change_facts c";
        cases "extract_market_facts c"; cases "extract_volume_facts c")
       (auto simp: lacks_number_def record_facts_def)
qed

lemma extract_loop_raises:
  "\<exists>c\<in>set cs. \<exists>e. record_facts c = Inl e \<Longrightarrow> \<exists>e. extract_loop acc cs = Inl e"
proof (induction cs arbitrary: acc)
  case Nil
  then show ?case by simp
next
  case (Cons c cs)
  show ?case
  proof (cases "record_facts c")
    case (Inl e)
    then show ?thesis unfolding extract_loop_step by simp
  next
    case (Inr gs)
    with Cons.prems have "\<exists>c\<in>set cs. \<exists>e. record_facts c = Inl e" by auto
    from Cons.IH [OF this, of "acc @ gs"] Inr show ?thesis
      unfolding extract_loop_step by simp
  qed
qed

subsection \<open>The example snapshot\<close>

lemma extract_btc:
  "extract_facts [btc] = Inr [btc_price_fact, btc_change_fact, btc_market_fact, btc_volume_fact]"
  by code_simp

lemma extract_negative_priced: "extract_facts [negative_priced] = Inr [negative_price_fact]"
  by code_simp

lemma extract_btc_renamed:
  "extract_facts [btc_renamed] =
     Inr [btc_price_fact\<lparr>content := ''Wrapped Bitcoin (BTC) is currently trading at $50,000.00 USD.''\<rparr>,
          btc_change_fact\<lparr>content := ''Wrapped Bitcoin has increased by 2.50% ($1200.00) in the last 24 hours.''\<rparr>,
          btc_market_fact\<lparr>content := ''Wrapped Bitcoin has a market capitalization of $950.00 billion USD, ranking #1 by market cap.''\<rparr>,
          btc_volume_fact\<lparr>content := ''Wrapped Bitcoin has a 24-hour trading volume of $25000.00 million USD.''\<rparr>]"
  by code_simp

text \<open>
  The quotient of the market cap is rounded to a double before it is formatted:
  1015000000 / 1000000000 is printed as 1.01, the double next to 1.015 being below it.
  A market cap whose quotient no double holds raises OverflowError.
\<close>

lemma market_cap_quotient_rounded:
  "py_truediv (PyInt 1015000000) 1000000000 = Inr (PyFloat (round_double (1015 / 1000)))
   \<and> format_2f False (round_double (1015 / 1000)) = ''1.01''"
  by code_simp

lemma market_cap_overflow:
  "extract_facts [btc\<lparr>market_cap := Some (10 ^ 400)\<rparr>] = Inl OverflowError"
  by code_simp

subsection \<open>Fact identifiers\<close>

text \<open>
  C2, as the specification states it: every fact has the id
  \<^verbatim>\<open>{entity_id}_{fact_type}_{timestamp}\<close>. The market fact of the example snapshot has
  the type \<^verbatim>\<open>market_cap\<close> and an id built with \<^verbatim>\<open>market\<close>, so the statement fails.
\<close>

theorem fact_id_market_cap_counterexample:
  "extract_facts [btc] = Inr [btc_price_fact, btc_change_fact, btc_market_fact, btc_volume_fact]
   \<and> fact_type btc_market_fact = ''market_cap''
   \<and> fact_id btc_market_fact = ''bitcoin_market_2024-01-01T00:00:00+00:00''
   \<and> fact_id btc_market_fact \<noteq> id' btc @ ''_'' @ fact_type btc_market_fact @ ''_'' @ timestamp' btc"
  using extract_btc by (simp add: btc_market_fact_def btc_def)

text \<open>
  C2, amended: every fact emitted by \<^verbatim>\<open>extract_facts\<close> comes from a record of the
  input and has the id \<^verbatim>\<open>{entity_id}_{tag}_{timestamp}\<close> of that record, where the tag
  is \<^verbatim>\<open>market\<close> for a fact of type \<^verbatim>\<open>market_cap\<close> and the fact type itself for the
  types \<^verbatim>\<open>price\<close>, \<^verbatim>\<open>change\<close> and \<^verbatim>\<open>volume\<close>.
\<close>

theorem fact_id_format:
  assumes "extract_facts cs = Inr fs" and "f \<in> set fs"
  shows "\<exists>c\<in>set cs. crypto_id f = id' c \<and> timestamp f = timestamp' c \<and>
           fact_id f = id' c @ ''_'' @ (if fact_type f = ''market_cap'' then ''market'' else fact_type f)
                         @ ''_'' @ timestamp' c"
  using extract_facts_from_record [OF assms] unfolding from_record_def by blast

text \<open>C2, amended, on the volume fact of the example snapshot.\<close>

theorem fact_id_format_witness:
  "extract_facts [btc] = Inr [btc_price_fact, btc_change_fact, btc_market_fact, btc_volume_fact]
   \<and> btc_volume_fact \<in> set [btc_price_fact, btc_change_fact, btc_market_fact, btc_volume_fact]
   \<and> (\<exists>c\<in>set [btc]. crypto_id btc_volume_fact = id' c \<and> timestamp btc_volume_fact = timestamp' c \<and>
           fact_id btc_volume_fact = id' c @ ''_'' @
             (if fact_type btc_volume_fact = ''market_cap'' then ''market'' else fact_type btc_volume_fact)
               @ ''_'' @ timestamp' c)"
  using fact_id_format [OF extract_btc, of btc_volume_fact] extract_btc by simp

subsection \<open>The price fact\<close>

text \<open>
  C4, as the specification states it: a price fact is emitted if and only if the price is
  not negative. A record with the price -1 yields a price fact, so the statement fails.
\<close>

theorem negative_price_counterexample:
  "current_price negative_priced = Some (- 1)
   \<and> extract_facts [negative_priced] = Inr [negative_price_fact]
   \<and> fact_type negative_price_fact = ''price''"
  using extract_negative_priced by (simp add: negative_priced_def negative_price_fact_def)

text \<open>
  C4, amended: whenever \<^verbatim>\<open>extract_facts\<close> returns, its price facts are, in the order
  of the input, exactly one for each record, whatever the sign of the price.
\<close>

theorem price_fact_for_every_record:
  assumes "extract_facts cs = Inr fs"
  shows "map crypto_id (filter (\<lambda>f. fact_type f = ''price'') fs) = map id' cs"
  using extract_facts_chunks [OF assms] price_facts_of_chunks by blast

text \<open>C4, amended, on the record with the negative price.\<close>

theorem price_fact_for_every_record_witness:
  "extract_facts [negative_priced] = Inr [negative_price_fact]
   \<and> map crypto_id (filter (\<lambda>f. fact_type f = ''price'') [negative_price_fact])
       = map id' [negative_priced]"
  using price_fact_for_every_record [OF extract_negative_priced] extract_negative_priced by simp

subsection \<open>Deriving the content\<close>

text \<open>
  C5, as the specification states it: one function of the metadata, the symbol and the
  fact type gives the content of every fact. Two records that differ in the name only
  yield price facts with the same metadata, symbol and type and different contents, so
  there is no such function.
\<close>

theorem content_needs_name_counterexample:
  "\<not> (\<exists>derive. \<forall>cs fs. extract_facts cs = Inr fs \<longrightarrow>
         (\<forall>f\<in>set fs. derive (metadata f) (crypto_symbol f) (fact_type f) = content f))"
proof
  assume "\<exists>derive. \<forall>cs fs. extract_facts cs = Inr fs \<longrightarrow>
            (\<forall>f\<in>set fs. derive (metadata f) (crypto_symbol f) (fact_type f) = content f)"
  then obtain derive where d: "\<And>cs fs f. extract_facts cs = Inr fs \<Longrightarrow> f \<in> set fs \<Longrightarrow>
      derive (metadata f) (crypto_symbol f) (fact_type f) = content f"
    by blast
  have "derive (metadata btc_price_fact) (crypto_symbol btc_price_fact) (fact_type btc_price_fact)
          = content btc_price_fact"
    by (rule d [OF extract_btc]) simp
  moreover have "derive (metadata btc_price_fact) (crypto_symbol btc_price_fact) (fact_type btc_price_fact)
          = ''Wrapped Bitcoin (BTC) is currently trading at $50,000.00 USD.''"
    using d [OF extract_btc_renamed,
        of "btc_price_fact\<lparr>content := ''Wrapped Bitcoin (BTC) is currently trading at $50,000.00 USD.''\<rparr>"]
    by simp
  ultimately show False by (simp add: btc_price_fact_def)
qed

text \<open>
  C5, amended: whenever \<^verbatim>\<open>extract_facts\<close> returns, its list is the concatenation, in
  the order of the input, of the lists it returns for each record alone, and the content
  of every fact in the list of a record is \<open>derive_content\<close> of the name of that record,
  the metadata, the symbol and the fact type of the fact, for all four fact types.
\<close>

theorem content_derivable:
  assumes "extract_facts cs = Inr fs"
  shows "\<exists>fss. fs = concat fss \<and>
           list_all2 (\<lambda>c gs. extract_facts [c] = Inr gs \<and>
                        (\<forall>f\<in>set gs. derive_content (name c) (metadata f) (crypto_symbol f)
                                       (fact_type f) = Inr (content f)))
             cs fss"
proof -
  from extract_facts_chunks [OF assms] obtain fss
    where l: "list_all2 (\<lambda>c gs. record_facts c = Inr gs) cs fss" and fs: "fs = concat fss"
    by blast
  from l have "list_all2 (\<lambda>c gs. extract_facts [c] = Inr gs \<and>
                        (\<forall>f\<in>set gs. derive_content (name c) (metadata f) (crypto_symbol f)
                                       (fact_type f) = Inr (content f)))
                 cs fss"
  proof (rule list_all2_mono)
    fix c gs
    assume r: "record_facts c = Inr gs"
    from record_facts_from_record [OF r] have "\<forall>f\<in>set gs. from_record c f"
      by blast
    with r show "extract_facts [c] = Inr gs \<and>
            (\<forall>f\<in>set gs. derive_content (name c) (metadata f) (crypto_symbol f)
                           (fact_type f) = Inr (content f))"
      unfolding extract_facts_single from_record_def by blast
  qed
  with fs show ?thesis by blast
qed

text \<open>C5, amended, on the change fact of the example snapshot.\<close>

theorem content_derivable_witness:
  "extract_facts [btc] = Inr [btc_price_fact, btc_change_fact, btc_market_fact, btc_volume_fact]
   \<and> derive_content (name btc) (metadata btc_change_fact) (crypto_symbol btc_change_fact)
         (fact_type btc_change_fact) = Inr (content btc_change_fact)"
proof -
  from content_derivable [OF extract_btc] obtain fss where
    "list_all2 (\<lambda>c gs. extract_facts [c] = Inr gs \<and>
                  (\<forall>f\<in>set gs. derive_content (name c) (metadata f) (crypto_symbol f)
                                 (fact_type f) = Inr (content f)))
       [btc] fss"
    by blast
  then obtain gs where "extract_facts [btc] = Inr gs"
    and d: "\<forall>f\<in>set gs. derive_content (name btc) (metadata f) (crypto_symbol f)
                           (fact_type f) = Inr (content f)"
    by (auto simp: list_all2_Cons1)
  with extract_btc have "btc_change_fact \<in> set gs" by simp
  with d extract_btc show ?thesis by blast
qed

subsection \<open>Totality\<close>

text \<open>
  C6, as the specification states it: \<^verbatim>\<open>extract_facts\<close> never raises, and a record
  with a missing number contributes no facts and does not abort the batch. A batch of
  the example record and a copy whose price is \<^verbatim>\<open>None\<close> raises TypeError, and the
  facts of the first record are lost with it.
\<close>

theorem none_price_aborts_batch_counterexample:
  "extract_facts [btc, btc\<lparr>current_price := None\<rparr>] = Inl TypeError"
  by code_simp

text \<open>
  C6, amended: on records whose numeric fields hold numbers in the range defined by
  \<open>numbers_in_range\<close>, \<^verbatim>\<open>extract_facts\<close> returns a list of facts, which is the
  concatenation, in the order of the input, of the lists it returns for each record
  alone, none of them empty. It does not recover from a record: when some record of the
  batch holds \<^verbatim>\<open>None\<close> as its price, market cap, percentage change or volume, the
  call raises and returns no facts at all.
\<close>

theorem extract_facts_total_on_numbers:
  "((\<forall>c\<in>set cs. numbers_in_range c) \<longrightarrow>
      (\<exists>fss. extract_facts cs = Inr (concat fss) \<and>
             list_all2 (\<lambda>c gs. extract_facts [c] = Inr gs \<and> gs \<noteq> []) cs fss))
   \<and> ((\<exists>c\<in>set cs. lacks_number c) \<longrightarrow> (\<exists>e. extract_facts cs = Inl e))"
proof (intro conjI impI)
  assume "\<forall>c\<in>set cs. numbers_in_range c"
  from records_total [OF this] obtain fss
    where l: "list_all2 (\<lambda>c gs. record_facts c = Inr gs \<and> gs \<noteq> []) cs fss"
    by blast
  then have "list_all2 (\<lambda>c gs. record_facts c = Inr gs) cs fss"
    by (rule list_all2_mono) simp
  from extract_loop_total [OF this, of "[]"] have "extract_facts cs = Inr (concat fss)"
    by (simp add: extract_facts_def)
  moreover from l have "list_all2 (\<lambda>c gs. extract_facts [c] = Inr gs \<and> gs \<noteq> []) cs fss"
    by (simp add: extract_facts_single)
  ultimately show "\<exists>fss. extract_facts cs = Inr (concat fss) \<and>
             list_all2 (\<lambda>c gs. extract_facts [c] = Inr gs \<and> gs \<noteq> []) cs fss"
    by blast
next
  assume "\<exists>c\<in>set cs. lacks_number c"
  then have "\<exists>c\<in>set cs. \<exists>e. record_facts c = Inl e"
    using record_facts_raises by blast
  from extract_loop_raises [OF this, of "[]"] show "\<exists>e. extract_facts cs = Inl e"
    by (simp add: extract_facts_def)
qed

text \<open>
  C6, amended, on the example snapshot, and on the batch of the example record and a
  copy without a price.
\<close>

theorem extract_facts_total_on_numbers_witness:
  "numbers_in_range btc
   \<and> (\<exists>fss. extract_facts [btc] = Inr (concat fss) \<and>
             list_all2 (\<lambda>c gs. extract_facts [c] = Inr gs \<and> gs \<noteq> []) [btc] fss)
   \<and> lacks_number (btc\<lparr>current_price := None\<rparr>)
   \<and> (\<exists>e. extract_facts [btc, btc\<lparr>current_price := None\<rparr>] = Inl e)"
proof -
  have n: "numbers_in_range btc"
    by code_simp
  have l: "lacks_number (btc\<lparr>current_price := None\<rparr>)"
    by (simp add: lacks_number_def)
  from n have "\<forall>c\<in>set [btc]. numbers_in_range c"
    by simp
  with extract_facts_total_on_numbers [of "[btc]"]
  have a: "\<exists>fss. extract_facts [btc] = Inr (concat fss) \<and>
             list_all2 (\<lambda>c gs. extract_facts [c] = Inr gs \<and> gs \<noteq> []) [btc] fss"
    by blast
  from l have "\<exists>c\<in>set [btc, btc\<lparr>current_price := None\<rparr>]. lacks_number c"
    by simp
  with extract_facts_total_on_numbers [of "[btc, btc\<lparr>current_price := None\<rparr>]"]
  have "\<exists>e. extract_facts [btc, btc\<lparr>current_price := None\<rparr>] = Inl e"
    by blast
  with n a l show ?thesis by (intro conjI)
qed

section \<open>Properties of the retriever\<close>

subsection \<open>What the store hands over\<close>

lemma format_hit_store_hit: "format_hit results i = Inr h \<Longrightarrow> store_hit h"
  by (auto simp: format_hit_def and_then_eq_Inr store_hit_def float_distance_def
           split: option.splits list.splits)

lemma format_loop_store_hit:
  "format_loop results acc is = Inr hs \<Longrightarrow> \<forall>h\<in>set acc. store_hit h \<Longrightarrow> \<forall>h\<in>set hs. store_hit h"
proof (induction "is" arbitrary: acc)
  case Nil
  then show ?case by simp
next
  case (Cons i "is")
  from Cons.prems(1) obtain h where h: "format_hit results i = Inr h"
    and rest: "format_loop results (acc @ [h]) is = Inr hs"
    by (auto simp: and_then_eq_Inr)
  from h Cons.prems(2) have "\<forall>x\<in>set (acc @ [h]). store_hit x"
    by (auto dest: format_hit_store_hit)
  from Cons.IH [OF rest this] show ?case .
qed

lemma formatted_store_hit:
  assumes "(case qr_documents results of
              None \<Rightarrow> Inr []
            | Some [] \<Rightarrow> Inr []
            | Some (d0 # ds) \<Rightarrow>
                if d0 = [] then Inr [] else format_loop results [] [0..<length d0]) = Inr hs"
  shows "\<forall>h\<in>set hs. store_hit h"
proof (cases "qr_documents results")
  case None
  with assms show ?thesis by auto
next
  case (Some docs)
  show ?thesis
  proof (cases docs)
    case Nil
    with Some assms show ?thesis by auto
  next
    case (Cons d0 ds)
    show ?thesis
    proof (cases "d0 = []")
      case True
      with Some Cons assms show ?thesis by auto
    next
      case False
      with Some Cons assms have "format_loop results [] [0..<length d0] = Inr hs" by simp
      from format_loop_store_hit [OF this] show ?thesis by simp
    qed
  qed
qed

lemma search_facts_store_hit:
  assumes "search_facts encode cq q n cf = Inr hs"
  shows "\<forall>h\<in>set hs. store_hit h"
proof -
  from assms obtain results where
    "(case qr_documents results of
        None \<Rightarrow> Inr []
      | Some [] \<Rightarrow> Inr []
      | Some (d0 # ds) \<Rightarrow>
          if d0 = [] then Inr [] else format_loop results [] [0..<length d0]) = Inr hs"
    unfolding search_facts_def Let_def and_then_eq_Inr by blast
  then show ?thesis by (rule formatted_store_hit)
qed

subsection \<open>The filter and the slice\<close>

lemma filter_loop_relevant:
  "filter_loop t acc hs = Inr out \<Longrightarrow> \<forall>h\<in>set hs. store_hit h \<Longrightarrow>
     \<forall>h\<in>set acc. relevant t h \<Longrightarrow> \<forall>h\<in>set out. relevant t h"
proof (induction hs arbitrary: acc)
  case Nil
  then show ?case by simp
next
  case (Cons h hs)
  from Cons.prems(2) have sh: "store_hit h" and tl: "\<forall>x\<in>set hs. store_hit x" by simp_all
  from Cons.prems(1) obtain s where
    s: "py_one_minus (case hit_distance h of None \<Rightarrow> PyFloat 1 | Some v \<Rightarrow> v) = Inr s" and
    rest: "filter_loop t (if t \<le> s then acc @ [h\<lparr>hit_similarity := Some s\<rparr>] else acc) hs = Inr out"
    by (auto simp: and_then_eq_Inr)
  from sh s obtain d where d: "hit_distance h = Some (PyFloat d)" "s = 1 - d"
    by (auto simp: store_hit_def float_distance_def)
  have "\<forall>x\<in>set (if t \<le> s then acc @ [h\<lparr>hit_similarity := Some s\<rparr>] else acc). relevant t x"
    using Cons.prems(3) d by (auto simp: relevant_def)
  from Cons.IH [OF rest tl this] show ?case .
qed

lemma filter_loop_returns:
  "\<forall>h\<in>set hs. float_distance h \<Longrightarrow> \<exists>out. filter_loop t acc hs = Inr out"
  by (induction hs arbitrary: acc) (auto simp: float_distance_def)


lemma filter_loop_above_one:
  "\<forall>h\<in>set hs. \<exists>d. hit_distance h = Some (PyFloat d) \<and> 0 \<le> d \<Longrightarrow> 1 < t \<Longrightarrow>
     filter_loop t acc hs = Inr acc"
  by (induction hs arbitrary: acc) auto

lemma py_take_bound: "0 \<le> k \<Longrightarrow> int (length (py_take k xs)) \<le> k"
  by (simp add: py_take_def)

lemma set_py_take: "set (py_take k xs) \<subseteq> set xs"
  by (auto simp: py_take_def dest: in_set_takeD)

text \<open>
  \<^verbatim>\<open>retrieve_facts\<close> returns whenever the search returns and every candidate carries a
  number as its distance, and raises TypeError whenever some candidate carries
  \<^verbatim>\<open>None\<close>.
\<close>

lemma retrieve_facts_returns:
  assumes "search_facts encode cq q (k * 2) cf = Inr raw" and "\<forall>h\<in>set raw. float_distance h"
  shows "\<exists>r. retrieve_facts encode cq clock q k cf t = Inr r"
  using assms(1) filter_loop_returns [OF assms(2), of t "[]"]
  by (auto simp: retrieve_facts_def)


subsection \<open>The sample collection\<close>

lemma search_sample_2:
  "search_facts sample_encode sample_query ''What is the price of Bitcoin?'' (1 * 2) None
     = Inr [price_hit, change_hit]"
  by code_simp

lemma retrieve_sample_1:
  "retrieve_facts sample_encode sample_query (0, 1) ''What is the price of Bitcoin?'' 1 None 0.8
     = Inr \<lparr>query = ''What is the price of Bitcoin?'',
            facts = [price_hit\<lparr>hit_similarity := Some 0.9\<rparr>],
            total_found = 2, retrieval_time = 1\<rparr>"
  by code_simp

subsection \<open>The bound and the threshold\<close>

text \<open>
  C1: for every query, every \<open>max_facts = k \<ge> 0\<close>, every threshold \<open>t\<close> and every
  answer of the vector store, a result that \<^verbatim>\<open>retrieve_facts\<close> returns has at most
  \<open>k\<close> facts, and every fact in it carries a distance \<open>d\<close> and the similarity \<open>1 - d\<close>,
  which is at least \<open>t\<close>.
\<close>

theorem retrieve_facts_bounded:
  assumes "retrieve_facts encode cq clock q k cf t = Inr r" and "0 \<le> k"
  shows "int (length (facts r)) \<le> k \<and>
         (\<forall>h\<in>set (facts r). \<exists>d. hit_distance h = Some (PyFloat d) \<and>
              hit_similarity h = Some (1 - d) \<and> t \<le> 1 - d)"
proof -
  from assms(1) obtain raw out where
    raw: "search_facts encode cq q (k * 2) cf = Inr raw" and
    out: "filter_loop t [] raw = Inr out" and
    r: "facts r = py_take k out"
    by (auto simp: retrieve_facts_def and_then_eq_Inr)
  from filter_loop_relevant [OF out search_facts_store_hit [OF raw]]
  have "\<forall>h\<in>set out. relevant t h" by simp
  with set_py_take [of k out] have "\<forall>h\<in>set (facts r). relevant t h"
    unfolding r by blast
  with py_take_bound [OF assms(2), of out] show ?thesis
    unfolding r relevant_def by simp
qed

text \<open>
  C1 on the sample collection with \<open>k = 1\<close> and \<open>t = 0.8\<close>: two candidates pass the
  threshold and one is returned.
\<close>

theorem retrieve_facts_bounded_witness:
  "retrieve_facts sample_encode sample_query (0, 1) ''What is the price of Bitcoin?'' 1 None 0.8
     = Inr \<lparr>query = ''What is the price of Bitcoin?'',
            facts = [price_hit\<lparr>hit_similarity := Some 0.9\<rparr>],
            total_found = 2, retrieval_time = 1\<rparr>
   \<and> (0::int) \<le> 1
   \<and> int (length [price_hit\<lparr>hit_similarity := Some 0.9\<rparr>]) \<le> 1
   \<and> (\<exists>d. hit_distance (price_hit\<lparr>hit_similarity := Some 0.9\<rparr>) = Some (PyFloat d) \<and>
            hit_similarity (price_hit\<lparr>hit_similarity := Some 0.9\<rparr>) = Some (1 - d) \<and> 0.8 \<le> 1 - d)"
  using retrieve_facts_bounded [OF retrieve_sample_1] retrieve_sample_1 by simp

text \<open>
  C7, as the specification states it: a threshold outside \<open>[0, 1]\<close> is rejected with an
  error and retrieval never runs with it. The configuration validates, and
  \<^verbatim>\<open>retrieve_facts\<close> runs with the thresholds 1.5 and -0.5 and returns a result, so the
  statement fails.
\<close>

theorem threshold_not_rejected_counterexample:
  "validate ''gsk_key''
   \<and> retrieve_facts sample_encode sample_query (0, 1) ''What is the price of Bitcoin?'' 1 None 1.5
     = Inr \<lparr>query = ''What is the price of Bitcoin?'', facts = [], total_found = 2, retrieval_time = 1\<rparr>
   \<and> retrieve_facts sample_encode sample_query (0, 1) ''What is the price of Bitcoin?'' 1 None (- 0.5)
     = Inr \<lparr>query = ''What is the price of Bitcoin?'',
            facts = [price_hit\<lparr>hit_similarity := Some 0.9\<rparr>],
            total_found = 2, retrieval_time = 1\<rparr>"
  by code_simp

text \<open>
  C7, amended: no threshold is rejected. With a threshold above 1 and candidates at
  distances that are not negative, \<^verbatim>\<open>retrieve_facts\<close> runs and returns a result with
  no facts, whose \<^verbatim>\<open>total_found\<close> still counts the candidates.
\<close>

theorem threshold_above_one_returns_nothing:
  assumes "search_facts encode cq q (k * 2) cf = Inr hs"
    and "\<forall>h\<in>set hs. \<exists>d. hit_distance h = Some (PyFloat d) \<and> 0 \<le> d"
    and "1 < t"
  shows "retrieve_facts encode cq clock q k cf t =
           Inr \<lparr>query = q, facts = [], total_found = length hs,
                retrieval_time = snd clock - fst clock\<rparr>"
  using assms(1) filter_loop_above_one [OF assms(2,3), of "[]"]
  by (simp add: retrieve_facts_def py_take_def)

text \<open>C7, amended, on the sample collection with the threshold 2.\<close>

theorem threshold_above_one_returns_nothing_witness:
  "search_facts sample_encode sample_query ''What is the price of Bitcoin?'' (1 * 2) None
     = Inr [price_hit, change_hit]
   \<and> (\<exists>d. hit_distance price_hit = Some (PyFloat d) \<and> 0 \<le> d)
   \<and> (\<exists>d. hit_distance change_hit = Some (PyFloat d) \<and> 0 \<le> d)
   \<and> (1::real) < 2
   \<and> retrieve_facts sample_encode sample_query (0, 1) ''What is the price of Bitcoin?'' 1 None 2 =
           Inr \<lparr>query = ''What is the price of Bitcoin?'', facts = [],
                total_found = 2, retrieval_time = 1\<rparr>"
proof -
  have h: "\<forall>h\<in>set [price_hit, change_hit]. \<exists>d. hit_distance h = Some (PyFloat d) \<and> 0 \<le> d"
    by (auto simp: price_hit_def change_hit_def intro: exI [of _ "1 / 10"] exI [of _ "3 / 20"])
  have t: "(1::real) < 2" by simp
  note r = threshold_above_one_returns_nothing [OF search_sample_2 h t, of "(0, 1)"]
  then have "retrieve_facts sample_encode sample_query (0, 1) ''What is the price of Bitcoin?'' 1 None 2 =
           Inr \<lparr>query = ''What is the price of Bitcoin?'', facts = [],
                total_found = 2, retrieval_time = 1\<rparr>"
    by simp
  moreover from h have "\<exists>d. hit_distance price_hit = Some (PyFloat d) \<and> 0 \<le> d"
    and "\<exists>d. hit_distance change_hit = Some (PyFloat d) \<and> 0 \<le> d"
    by simp_all
  ultimately show ?thesis using search_sample_2 t by (intro conjI)
qed

subsection \<open>Candidates without a distance\<close>









subsection \<open>Intent analysis\<close>

text \<open>
  C9: for the query \<^verbatim>\<open>Compare Bitcoin and Ethereum market caps\<close>,
  \<^verbatim>\<open>analyze_query_intent\<close> returns the entities BTC and ETH, the one intent
  \<^verbatim>\<open>market_cap\<close>, a comparison, and not a general query.
\<close>

theorem analyze_query_intent_compare:
  "analyze_query_intent ''Compare Bitcoin and Ethereum market caps'' =
     \<lparr>cryptos = {''BTC'', ''ETH''}, intents = [''market_cap''],
      is_comparison = True, is_general = False\<rparr>"
  by code_simp

section \<open>Properties of the vector store\<close>

subsection \<open>Adding facts\<close>

lemma batch_rows_ids:
  "length ds = length is \<Longrightarrow> length ms = length is \<Longrightarrow> length es = length is \<Longrightarrow>
     map stored_id (batch_rows ds ms es is) = is"
  by (induction ds ms es "is" rule: batch_rows.induct) auto

lemma filter_same_id:
  "distinct (map stored_id rows) \<Longrightarrow> r \<in> set rows \<Longrightarrow>
     filter (\<lambda>x. stored_id x = stored_id r) rows = [r]"
proof (induction rows)
  case Nil
  then show ?case by simp
next
  case (Cons a rows)
  show ?case
  proof (cases "a = r")
    case True
    with Cons.prems have "\<forall>x\<in>set rows. stored_id x \<noteq> stored_id r"
      by (simp add: notin_image_conv)
    then have "filter (\<lambda>x. stored_id x = stored_id r) rows = []"
      by (simp add: filter_empty_conv)
    with True show ?thesis by simp
  next
    case False
    with Cons.prems have r: "r \<in> set rows" and d: "distinct (map stored_id rows)" by auto
    from r Cons.prems(1) have "stored_id a \<noteq> stored_id r"
      by (auto simp: notin_image_conv)
    with Cons.IH [OF d r] show ?thesis by simp
  qed
qed

lemma chroma_add_result:
  assumes "chroma_add rows documents metadatas embeddings ids = Inr rows'"
  shows "rows' = rows @ filter (\<lambda>r. stored_id r \<notin> set (map stored_id rows))
                          (batch_rows documents metadatas embeddings ids)
         \<and> map stored_id (batch_rows documents metadatas embeddings ids) = ids \<and> distinct ids"
  using assms by (auto simp: chroma_add_def batch_rows_ids split: if_splits)

lemma length_batch_rows:
  "length ds = length is \<Longrightarrow> length ms = length is \<Longrightarrow> length es = length is \<Longrightarrow>
     length (batch_rows ds ms es is) = length is"
  by (induction ds ms es "is" rule: batch_rows.induct) auto

lemma nth_batch_rows:
  "length ds = length is \<Longrightarrow> length ms = length is \<Longrightarrow> length es = length is \<Longrightarrow>
     i < length is \<Longrightarrow>
     batch_rows ds ms es is ! i =
       \<lparr>stored_id = is ! i, stored_document = ds ! i, stored_metadata = ms ! i,
        stored_embedding = es ! i\<rparr>"
proof (induction ds ms es "is" arbitrary: i rule: batch_rows.induct)
  case (1 d ds m ms e es j js)
  then show ?case by (cases i) simp_all
qed simp_all

lemma batch_rows_facts:
  assumes "length (encode (map content fs)) = length fs"
  shows "batch_rows (map content fs) (map fact_metadata fs) (encode (map content fs))
           (map fact_id fs) = map (fact_row encode fs) [0..<length fs]"
proof (rule nth_equalityI)
  show "length (batch_rows (map content fs) (map fact_metadata fs) (encode (map content fs))
           (map fact_id fs)) = length (map (fact_row encode fs) [0..<length fs])"
    using assms by (simp add: length_batch_rows)
next
  fix i
  assume "i < length (batch_rows (map content fs) (map fact_metadata fs)
                        (encode (map content fs)) (map fact_id fs))"
  with assms have i: "i < length fs" by (simp add: length_batch_rows)
  with assms show "batch_rows (map content fs) (map fact_metadata fs) (encode (map content fs))
           (map fact_id fs) ! i = map (fact_row encode fs) [0..<length fs] ! i"
    by (simp add: nth_batch_rows fact_row_def)
qed

lemma add_two_facts:
  "add_facts sample_encode (chroma_add [old_row]) [old_row] [new_fact, btc_change_fact]
     = Inr ([old_row, change_row], 2)"
  by code_simp

text \<open>
  C3, as the specification states it: adding a fact whose id is already stored replaces
  the stored content, metadata and embedding. \<^verbatim>\<open>add_facts\<close> calls \<^verbatim>\<open>add\<close> of the
  collection, which leaves a stored id alone: the collection holds the old document and
  metadata after the call, and the call still reports one added fact.
\<close>

theorem add_facts_no_replace_counterexample:
  "add_facts sample_encode (chroma_add [old_row]) [old_row] [new_fact] = Inr ([old_row], 1)
   \<and> fact_id new_fact = stored_id old_row
   \<and> stored_document old_row \<noteq> content new_fact
   \<and> stored_metadata old_row \<noteq> fact_metadata new_fact"
  by code_simp

text \<open>
  C3, amended: for every collection with one record for each id and every list of facts
  that \<^verbatim>\<open>add_facts\<close> accepts, the collection after the call consists of the records
  stored before, unchanged and in their places, followed by the records of those facts
  of the list whose id was not stored, each with the id, the content, the merged
  metadata and the embedding of its fact. So a record stored before the call is still
  the one record under its id, also when the list holds a fact with that id, the
  collection still has one record for each id, and the call returns the number of facts
  it was given, whether they were stored or not.
\<close>

theorem add_facts_keeps_stored_record:
  assumes "add_facts encode (chroma_add rows) rows fs = Inr (rows', n)"
    and "distinct (map stored_id rows)"
  shows "rows' = rows @ filter (\<lambda>x. stored_id x \<notin> stored_id ` set rows)
                          (map (fact_row encode fs) [0..<length fs])
         \<and> n = length fs
         \<and> distinct (map stored_id rows')
         \<and> (\<forall>r\<in>set rows. filter (\<lambda>x. stored_id x = stored_id r) rows' = [r])"
proof (cases "fs = []")
  case True
  with assms(1) have "rows' = rows" "n = 0" by (simp_all add: add_facts_def)
  with True assms(2) show ?thesis by (simp add: filter_same_id)
next
  case False
  with assms(1) have add: "chroma_add rows (map content fs) (map fact_metadata fs)
      (encode (map content fs)) (map fact_id fs) = Inr rows'" and n: "n = length fs"
    by (auto simp: add_facts_def Let_def and_then_eq_Inr)
  from add have len: "length (encode (map content fs)) = length fs"
    by (auto simp: chroma_add_def split: if_splits)
  define batch where "batch = map (fact_row encode fs) [0..<length fs]"
  define fresh where "fresh = filter (\<lambda>x. stored_id x \<notin> stored_id ` set rows) batch"
  from chroma_add_result [OF add] have rows': "rows' = rows @ fresh"
    and "distinct (map stored_id batch)"
    by (simp_all add: batch_def fresh_def batch_rows_facts [of encode fs, OF len])
  then have dfresh: "distinct (map stored_id fresh)"
    by (simp add: fresh_def distinct_map_filter)
  have disj: "\<forall>x\<in>set fresh. \<forall>y\<in>set rows. stored_id y \<noteq> stored_id x"
    by (simp add: fresh_def notin_image_conv)
  then have "stored_id ` set rows \<inter> stored_id ` set fresh = {}"
    by auto
  with assms(2) dfresh have d: "distinct (map stored_id rows')"
    by (simp add: rows')
  have "filter (\<lambda>x. stored_id x = stored_id r) rows' = [r]" if r: "r \<in> set rows" for r
  proof -
    from disj r have "\<forall>x\<in>set fresh. stored_id x \<noteq> stored_id r"
      by metis
    then have "filter (\<lambda>x. stored_id x = stored_id r) fresh = []"
      by (simp add: filter_empty_conv)
    with filter_same_id [OF assms(2) r] show ?thesis by (simp add: rows')
  qed
  with d n rows' show ?thesis by (simp add: fresh_def batch_def)
qed

text \<open>
  C3, amended, on the stored price fact and a list of two facts: one with the id of the
  stored fact and a newer price, which is not stored, and the change fact of the example
  snapshot, which is.
\<close>

theorem add_facts_keeps_stored_record_witness:
  "add_facts sample_encode (chroma_add [old_row]) [old_row] [new_fact, btc_change_fact]
     = Inr ([old_row, change_row], 2)
   \<and> distinct (map stored_id [old_row])
   \<and> [old_row, change_row] = [old_row] @ filter (\<lambda>x. stored_id x \<notin> stored_id ` set [old_row])
         (map (fact_row sample_encode [new_fact, btc_change_fact])
            [0..<length [new_fact, btc_change_fact]])
   \<and> (2::nat) = length [new_fact, btc_change_fact]
   \<and> distinct (map stored_id [old_row, change_row])
   \<and> filter (\<lambda>x. stored_id x = stored_id old_row) [old_row, change_row] = [old_row]"
proof -
  have d: "distinct (map stored_id [old_row])"
    by simp
  note t = add_facts_keeps_stored_record [OF add_two_facts d]
  note c1 = t [THEN conjunct1]
    and c2 = t [THEN conjunct2, THEN conjunct1]
    and c3 = t [THEN conjunct2, THEN conjunct2, THEN conjunct1]
    and c4 = t [THEN conjunct2, THEN conjunct2, THEN conjunct2]
  from c4 have c5: "filter (\<lambda>x. stored_id x = stored_id old_row) [old_row, change_row] = [old_row]"
    by (rule bspec) simp
  from add_two_facts d c1 c2 c3 c5 show ?thesis
    by (intro conjI)
qed

subsection \<open>Statistics\<close>

lemma take_min_length: "take (min n (length xs)) xs = take n xs"
  by (simp add: min_def)

lemma collection_stats_unfold:
  "get_collection_stats (chroma_count rows) (chroma_get rows) =
     (if rows = [] then [(''total_facts'', Count 0)]
      else [(''total_facts'', Count (length rows)),
            (''unique_cryptos'', Count (card (stored_symbol ` set (take 100 rows)))),
            (''crypto_symbols'', Names (stored_symbol ` set (take 100 rows))),
            (''fact_types'', Names (stored_type ` set (take 100 rows)))])"
proof -
  have s: "set (map (\<lambda>m. dict_get m k d) (map stored_metadata xs))
             = (\<lambda>r. dict_get (stored_metadata r) k d) ` set xs" for k d and xs :: "'a stored list"
    by (simp add: image_image)
  show ?thesis
    unfolding get_collection_stats_def chroma_count_def chroma_get_def Let_def
      take_min_length s stored_symbol_def stored_type_def
    by simp
qed

lemma stored_symbol_price_row [simp]: "stored_symbol (price_row coin smb t) = PyStr smb"
  by (simp add: stored_symbol_def price_row_def dict_get_def)

lemma stored_type_price_row [simp]: "stored_type (price_row coin smb t) = PyStr ''price''"
  by (simp add: stored_type_def price_row_def dict_get_def)

lemma constant_image_hundred: "(\<lambda>t. c) ` {0..<100::nat} = {c}"
  by (simp add: image_constant_conv)

lemma first_hundred:
  "take 100 hundred_and_one = map (\<lambda>t. price_row ''bitcoin'' ''BTC'' (int t)) [0..<100]"
  by (simp add: hundred_and_one_def)

lemma symbols_first_hundred: "stored_symbol ` set (take 100 hundred_and_one) = {PyStr ''BTC''}"
  unfolding first_hundred by (simp add: image_image constant_image_hundred)

lemma types_first_hundred: "stored_type ` set (take 100 hundred_and_one) = {PyStr ''price''}"
  unfolding first_hundred by (simp add: image_image constant_image_hundred)

lemma symbols_all: "stored_symbol ` set hundred_and_one = {PyStr ''BTC'', PyStr ''ETH''}"
  by (simp add: hundred_and_one_def image_image constant_image_hundred insert_commute)

text \<open>
  C8, as the specification states it: the statistics are the number of stored facts, the
  number of distinct entities and the number of distinct fact types, over all stored
  facts, also for an empty collection. For the empty collection the result has the one
  entry \<^verbatim>\<open>total_facts\<close>; for the collection of 101 records it counts one entity where
  two are stored; and it never holds a number of fact types. So the statement fails.
\<close>

theorem stats_counterexample:
  "get_collection_stats (chroma_count ([] :: nat stored list)) (chroma_get ([] :: nat stored list))
     = [(''total_facts'', Count 0)]
   \<and> get_collection_stats (chroma_count hundred_and_one) (chroma_get hundred_and_one) =
       [(''total_facts'', Count 101), (''unique_cryptos'', Count 1),
        (''crypto_symbols'', Names {PyStr ''BTC''}), (''fact_types'', Names {PyStr ''price''})]
   \<and> card (stored_symbol ` set hundred_and_one) = 2"
proof -
  have "length hundred_and_one = 101" "hundred_and_one \<noteq> []"
    by (simp_all add: hundred_and_one_def)
  then show ?thesis
    using collection_stats_unfold [of hundred_and_one]
      collection_stats_unfold [of "[] :: nat stored list"]
    by (simp add: symbols_first_hundred types_first_hundred symbols_all)
qed

text \<open>
  C8, amended: the statistics hold the number of stored facts; for a collection that is
  not empty they also hold the number of distinct entity symbols, the set of these
  symbols and the set of fact types found among the first 100 stored records, which are
  all the stored records when there are at most 100; for the empty collection they hold
  the entry \<^verbatim>\<open>total_facts = 0\<close> alone.
\<close>

theorem stats_over_sample:
  "get_collection_stats (chroma_count rows) (chroma_get rows) =
     (if rows = [] then [(''total_facts'', Count 0)]
      else [(''total_facts'', Count (length rows)),
            (''unique_cryptos'', Count (card (stored_symbol ` set (take 100 rows)))),
            (''crypto_symbols'', Names (stored_symbol ` set (take 100 rows))),
            (''fact_types'', Names (stored_type ` set (take 100 rows)))])
   \<and> (length rows \<le> 100 \<longrightarrow> set (take 100 rows) = set rows)"
  using collection_stats_unfold [of rows] by simp

text \<open>C8, amended, on the collection of one stored price fact.\<close>

theorem stats_over_sample_witness:
  "get_collection_stats (chroma_count [old_row]) (chroma_get [old_row]) =
     [(''total_facts'', Count 1), (''unique_cryptos'', Count 1),
      (''crypto_symbols'', Names {PyStr ''BTC''}), (''fact_types'', Names {PyStr ''price''})]
   \<and> length [old_row] \<le> 100 \<and> set (take 100 [old_row]) = set [old_row]"
proof -
  have "stored_symbol old_row = PyStr ''BTC''" "stored_type old_row = PyStr ''price''"
    by (simp_all add: stored_symbol_def stored_type_def old_row_def dict_get_def)
  with stats_over_sample [of "[old_row]"] show ?thesis by simp
qed

end
